theory Spec2Isabelle
  imports Main "HOL-Library.Sublist"
begin

section \<open>Data model\<close>

text \<open>
  Modelled from the spec: the upstream library's chunk type is not part of the repository;
  the handler reads \<^verbatim>\<open>chunk.text\<close>, \<^verbatim>\<open>chunk.usage_metadata\<close>,
  \<^verbatim>\<open>.prompt_token_count\<close> and \<^verbatim>\<open>.candidates_token_count\<close> only. Following the
  specification's \<^verbatim>\<open>Chunk = { text, usage?: { input_tokens: int, output_tokens: int } }\<close>
  the two counts are integers (Python's unbounded \<^verbatim>\<open>int\<close>) and the usage object is
  optional. The text is optional as well, since the handler guards against a falsy
  \<^verbatim>\<open>chunk.text\<close>.
\<close>

record usage =
  prompt_token_count :: int
  candidates_token_count :: int

record chunk =
  chunk_text :: "string option"
  usage_metadata :: "usage option"

text \<open>
  An exception, as far as the handler can tell exceptions apart: what
  \<^verbatim>\<open>except Exception\<close> catches, an instance of \<^verbatim>\<open>Exception\<close>, and what it lets
  through, any other \<^verbatim>\<open>BaseException\<close> (\<^verbatim>\<open>asyncio.CancelledError\<close>,
  \<^verbatim>\<open>KeyboardInterrupt\<close>, \<^verbatim>\<open>SystemExit\<close>); each with its \<^verbatim>\<open>str(e)\<close>.
\<close>

datatype exn = Exception string | BaseException string

fun is_Exception :: "exn \<Rightarrow> bool" where
  "is_Exception (Exception m) = True"
| "is_Exception (BaseException m) = False"

fun str :: "exn \<Rightarrow> string" where
  "str (Exception m) = m"
| "str (BaseException m) = m"

text \<open>
  An upstream lazy sequence, as one iteration sees it: the chunks it yields, in order, and
  then either its normal end (\<open>failure = None\<close>) or an exception \<open>e\<close>
  (\<open>failure = Some e\<close>), which for a cancelled request is the \<^verbatim>\<open>CancelledError\<close>
  raised where the generator awaits the next chunk. An exception raised while opening the
  stream is the case of no chunk. The consumer is assumed to take every frame the
  generator yields.
\<close>

record 'c stream =
  chunks :: "'c list"
  failure :: "exn option"

text \<open>
  The generator has three \<^verbatim>\<open>yield\<close> statements; an event records which of them
  produced a frame, and \<open>render\<close> is the string that statement yields.
\<close>

datatype event = Token string | Done | Error

definition data_frame :: "string \<Rightarrow> string" where
  "data_frame payload = ''data: '' @ payload @ ''\<newline>\<newline>''"

fun render :: "event \<Rightarrow> string" where
  "render (Token t) = data_frame t"
| "render Done = ''data: [DONE]\<newline>\<newline>''"
| "render Error = ''data: [ERROR]\<newline>\<newline>''"

text \<open>
  The calls made on the \<^verbatim>\<open>RunTree\<close> object, with the arguments that vary from run
  to run: the constructor (prompt and model name), \<^verbatim>\<open>post\<close>, \<^verbatim>\<open>add_event\<close> (event
  name), \<^verbatim>\<open>end(outputs=..., metadata=...)\<close> (output text, input, output and total
  tokens), \<^verbatim>\<open>end(error=...)\<close> and \<^verbatim>\<open>patch\<close>.
\<close>

datatype trace_call =
    RunTree_init string string
  | Post
  | Add_event string
  | End_outputs string int int int
  | End_error string
  | Patch

text \<open>
  The places of \<^verbatim>\<open>main.py\<close> where a recorder call is made. Each is executed at most
  once in a run, so a recorder that may raise is a function from these places to the
  description of the \<^verbatim>\<open>Exception\<close> it raises there, if any.
\<close>

datatype rt_site =
    At_RunTree
  | At_post
  | At_add_event
  | At_end_outputs
  | At_patch
  | At_end_error
  | At_patch_error

text \<open>Everything a run does to the outside, in the order it happens.\<close>

datatype action =
    Rt trace_call
  | Generate_content_stream string string
  | Astream string
  | Yield event
  | Print string

record env =
  VERTEX_AI_MODEL :: string
  genai_client :: "string \<Rightarrow> string \<Rightarrow> chunk stream"
  rt_raises :: "rt_site \<Rightarrow> string option"

text \<open>The local variables of \<^verbatim>\<open>generate\<close> in \<^verbatim>\<open>main.py\<close>, and the effects so far.\<close>

record gen_state =
  full_content :: string
  input_tokens :: int
  output_tokens :: int
  first_token :: "chunk option"
  effects :: "action list"

text \<open>
  A statement maps a state to a state and says whether it raised: \<open>(Some e, s)\<close> is an
  exception \<open>e\<close> raised in state \<open>s\<close>.
\<close>

type_synonym 's step = "'s \<Rightarrow> exn option \<times> 's"

text \<open>
  What is left of a run when the generator is finished: the description of the exception
  that left it, if one did, and the final state.
\<close>

definition leaves :: "exn option \<times> 's \<Rightarrow> string option \<times> 's" where
  "leaves r = (map_option str (fst r), snd r)"

section \<open>The handler of main.py\<close>

text \<open>
  Statements in sequence: the first one that raises ends the sequence, in the state it
  raised in.
\<close>

fun run_steps :: "'s step list \<Rightarrow> 's step" where
  "run_steps [] s = (None, s)"
| "run_steps (f # fs) s =
     (case f s of (None, s') \<Rightarrow> run_steps fs s' | (Some e, s') \<Rightarrow> (Some e, s'))"

text \<open>
  \<^verbatim>\<open>async for chunk in ...\<close>: the body runs on each chunk in order and an exception of
  the body leaves the loop; after the last chunk the stream ends normally or raises
  (\<open>fin\<close>).
\<close>

fun async_for :: "('c \<Rightarrow> 's step) \<Rightarrow> 'c list \<Rightarrow> exn option \<Rightarrow> 's step" where
  "async_for body [] fin s = (fin, s)"
| "async_for body (c # cs) fin s =
     (case body c s of (None, s') \<Rightarrow> async_for body cs fin s' | (Some e, s') \<Rightarrow> (Some e, s'))"

text \<open>
  A call on the recorder: the call is made, and raises what the recorder raises at that
  place. A \<^verbatim>\<open>yield\<close> hands one frame to the consumer.
\<close>

definition rt_call :: "env \<Rightarrow> rt_site \<Rightarrow> (gen_state \<Rightarrow> trace_call) \<Rightarrow> gen_state step" where
  "rt_call env site call s =
     (map_option Exception (rt_raises env site), s\<lparr>effects := effects s @ [Rt (call s)]\<rparr>)"

definition yield :: "event \<Rightarrow> gen_state step" where
  "yield ev s = (None, s\<lparr>effects := effects s @ [Yield ev]\<rparr>)"

text \<open>
  The loop body, lines 112 to 123: the first-token marker (112 to 114), the token totals
  overwritten by a chunk that carries usage (116 to 118), the text of the chunk, or the
  empty string when it is falsy (120), appended to the buffer (121) and yielded (123).
\<close>

definition note_first_token :: "env \<Rightarrow> chunk \<Rightarrow> gen_state step" where
  "note_first_token env c s =
     (if first_token s = None
      then rt_call env At_add_event (\<lambda>_. Add_event ''new_token'') (s\<lparr>first_token := Some c\<rparr>)
      else (None, s))"

definition record_usage :: "chunk \<Rightarrow> gen_state \<Rightarrow> gen_state" where
  "record_usage c s =
     (case usage_metadata c of
        Some u \<Rightarrow> s\<lparr>input_tokens := prompt_token_count u,
                    output_tokens := candidates_token_count u\<rparr>
      | None \<Rightarrow> s)"

definition text_of :: "chunk \<Rightarrow> string" where
  "text_of c = (case chunk_text c of Some t \<Rightarrow> (if t \<noteq> [] then t else []) | None \<Rightarrow> [])"

definition emit_text :: "chunk \<Rightarrow> gen_state step" where
  "emit_text c s =
     (let text = text_of c
      in yield (Token text) (s\<lparr>full_content := full_content s @ text\<rparr>))"

definition loop_body :: "env \<Rightarrow> chunk \<Rightarrow> gen_state step" where
  "loop_body env c =
     run_steps [note_first_token env c, (\<lambda>s. (None, record_usage c s)), emit_text c]"

text \<open>
  Lines 106 to 123: the upstream client is called with the model name and the question,
  and the loop runs over the stream it returns.
\<close>

definition consume_stream :: "env \<Rightarrow> string \<Rightarrow> gen_state step" where
  "consume_stream env q s =
     (let st = genai_client env (VERTEX_AI_MODEL env) q
      in async_for (loop_body env) (chunks st) (failure st)
           (s\<lparr>effects := effects s @ [Generate_content_stream (VERTEX_AI_MODEL env) q]\<rparr>))"

text \<open>
  The \<^verbatim>\<open>try\<close> block, lines 106 to 138: the loop, the done frame, then
  \<^verbatim>\<open>rt.end(outputs=..., metadata=...)\<close> with the buffer and the totals, then
  \<^verbatim>\<open>rt.patch()\<close>. The \<^verbatim>\<open>except Exception\<close> clause, lines 140 to 144: the exception
  is printed and passed to \<^verbatim>\<open>rt.end(error=...)\<close>, the trace is patched, and the error
  frame is yielded last.
\<close>

definition try_block :: "env \<Rightarrow> string \<Rightarrow> gen_state step" where
  "try_block env q =
     run_steps
       [consume_stream env q,
        yield Done,
        rt_call env At_end_outputs
          (\<lambda>s. End_outputs (full_content s) (input_tokens s) (output_tokens s)
                 (input_tokens s + output_tokens s)),
        rt_call env At_patch (\<lambda>_. Patch)]"

definition except_block :: "env \<Rightarrow> exn \<Rightarrow> gen_state step" where
  "except_block env e =
     run_steps
       [(\<lambda>s. (None, s\<lparr>effects := effects s @ [Print (str e)]\<rparr>)),
        rt_call env At_end_error (\<lambda>_. End_error (str e)),
        rt_call env At_patch_error (\<lambda>_. Patch),
        yield Error]"

text \<open>
  \<^verbatim>\<open>generate\<close>, lines 70 to 144: the \<^verbatim>\<open>RunTree\<close> is built and posted outside the
  \<^verbatim>\<open>try\<close> (72 to 98); the local variables start empty, zero and \<^verbatim>\<open>None\<close> (101 to
  104); an exception of the \<^verbatim>\<open>try\<close> block is handled by the \<^verbatim>\<open>except\<close> clause when
  it is an instance of \<^verbatim>\<open>Exception\<close> (140) and leaves the generator otherwise; an
  exception of that clause, like one of the trace start, leaves the generator.
\<close>

definition initial :: gen_state where
  "initial = \<lparr>full_content = [], input_tokens = 0, output_tokens = 0,
              first_token = None, effects = []\<rparr>"

definition generate :: "env \<Rightarrow> string \<Rightarrow> string option \<times> gen_state" where
  "generate env q =
     leaves
       (case run_steps
               [rt_call env At_RunTree (\<lambda>_. RunTree_init q (VERTEX_AI_MODEL env)),
                rt_call env At_post (\<lambda>_. Post)] initial of
          (Some e, s) \<Rightarrow> (Some e, s)
        | (None, s) \<Rightarrow>
            (case try_block env q s of
               (None, s') \<Rightarrow> (None, s')
             | (Some e, s') \<Rightarrow>
                 if is_Exception e then except_block env e s' else (Some e, s')))"

section \<open>The handler of example\_wrapper.py\<close>

text \<open>
  \<^verbatim>\<open>model.astream\<close> of the wrapped language model yields plain strings, on which
  \<^verbatim>\<open>hasattr(chunk, "usage_metadata")\<close> is false, so the loop body is the
  \<^verbatim>\<open>yield\<close> alone. There is no \<^verbatim>\<open>try\<close> and there are no local variables: the
  state is the effects so far.
\<close>

definition wrapper_body :: "string \<Rightarrow> action list step" where
  "wrapper_body chunk s = (None, s @ [Yield (Token chunk)])"

definition wrapper_generate ::
  "(string \<Rightarrow> string stream) \<Rightarrow> string \<Rightarrow> string option \<times> action list" where
  "wrapper_generate astream q =
     leaves
       (run_steps
          [(\<lambda>s. let st = astream q
                in async_for wrapper_body (chunks st) (failure st) (s @ [Astream q])),
           (\<lambda>s. (None, s @ [Yield Done]))] [])"

section \<open>The route\<close>

text \<open>
  \<^verbatim>\<open>ask(payload: Question)\<close> with \<^verbatim>\<open>question: str\<close>: the framework builds the
  payload from the request body before the handler runs and answers with a validation
  error when the attribute is missing. The argument is the body's \<^verbatim>\<open>question\<close>
  attribute, \<open>None\<close> when absent; every string, the empty one included, is a \<^verbatim>\<open>str\<close>.
\<close>

datatype response =
    Validation_error
  | Streaming_response "string option \<times> gen_state"

definition ask :: "env \<Rightarrow> string option \<Rightarrow> response" where
  "ask env question =
     (case question of
        None \<Rightarrow> Validation_error
      | Some q \<Rightarrow> Streaming_response (generate env q))"

section \<open>Observations on a run\<close>

fun yields :: "action list \<Rightarrow> event list" where
  "yields [] = []"
| "yields (Yield ev # as) = ev # yields as"
| "yields (_ # as) = yields as"

fun rt_calls :: "action list \<Rightarrow> trace_call list" where
  "rt_calls [] = []"
| "rt_calls (Rt c # as) = c # rt_calls as"
| "rt_calls (_ # as) = rt_calls as"

fun prompts :: "action list \<Rightarrow> string list" where
  "prompts [] = []"
| "prompts (Generate_content_stream m q # as) = q # prompts as"
| "prompts (_ # as) = prompts as"

definition events :: "string option \<times> gen_state \<Rightarrow> event list" where
  "events r = yields (effects (snd r))"

definition wrapper_events :: "string option \<times> action list \<Rightarrow> event list" where
  "wrapper_events r = yields (snd r)"

fun is_terminal :: "event \<Rightarrow> bool" where
  "is_terminal (Token t) = False"
| "is_terminal Done = True"
| "is_terminal Error = True"

definition terminals :: "event list \<Rightarrow> event list" where
  "terminals evs = filter is_terminal evs"

definition body_bytes :: "event list \<Rightarrow> string" where
  "body_bytes evs = concat (map render evs)"

definition rt_healthy :: "env \<Rightarrow> bool" where
  "rt_healthy env \<longleftrightarrow>
     rt_raises env At_RunTree = None \<and> rt_raises env At_post = None \<and>
     rt_raises env At_add_event = None \<and> rt_raises env At_end_outputs = None \<and>
     rt_raises env At_patch = None \<and> rt_raises env At_end_error = None \<and>
     rt_raises env At_patch_error = None"

text \<open>
  The upstream sequence ends normally or with an exception that \<^verbatim>\<open>except Exception\<close>
  catches.
\<close>

definition ends_or_raises_Exception :: "'c stream \<Rightarrow> bool" where
  "ends_or_raises_Exception st \<longleftrightarrow>
     (case failure st of None \<Rightarrow> True | Some e \<Rightarrow> is_Exception e)"

text \<open>
  The words of the specification: a chunk's text fragment, and the usage values of the
  last chunk that carried usage data (zero when none did).
\<close>

definition fragment :: "chunk \<Rightarrow> string" where
  "fragment c = (case chunk_text c of None \<Rightarrow> [] | Some t \<Rightarrow> t)"

fun usages :: "chunk list \<Rightarrow> usage list" where
  "usages [] = []"
| "usages (c # cs) =
     (case usage_metadata c of Some u \<Rightarrow> u # usages cs | None \<Rightarrow> usages cs)"

definition last_usage :: "chunk list \<Rightarrow> int \<times> int" where
  "last_usage cs =
     (if usages cs = [] then (0, 0)
      else (prompt_token_count (last (usages cs)), candidates_token_count (last (usages cs))))"

definition tokens :: "event list \<Rightarrow> string list" where
  "tokens evs = concat (map (\<lambda>ev. case ev of Token t \<Rightarrow> [t] | _ \<Rightarrow> []) evs)"

text \<open>
  One event sequence is another cut short: a prefix of it, or a prefix of it followed by
  the error event.
\<close>

definition cut_short :: "event list \<Rightarrow> event list \<Rightarrow> bool" where
  "cut_short evs full \<longleftrightarrow>
     prefix evs full \<or> (evs \<noteq> [] \<and> last evs = Error \<and> prefix (butlast evs) full)"

text \<open>How many times a run calls \<^verbatim>\<open>rt.add_event({"name": "new_token"})\<close>.\<close>

definition markers :: "string option \<times> gen_state \<Rightarrow> nat" where
  "markers r =
     length (filter (\<lambda>call. call = Add_event ''new_token'') (rt_calls (effects (snd r))))"

text \<open>The effects of a response: none when the request was rejected.\<close>

definition response_effects :: "response \<Rightarrow> action list" where
  "response_effects r =
     (case r of Validation_error \<Rightarrow> [] | Streaming_response run \<Rightarrow> effects (snd run))"

text \<open>What one pass of the loop body does to the state once the first chunk is behind.\<close>

definition absorb :: "chunk \<Rightarrow> gen_state \<Rightarrow> gen_state" where
  "absorb c s =
     (record_usage c s)\<lparr>full_content := full_content s @ text_of c,
                        effects := effects s @ [Yield (Token (text_of c))]\<rparr>"

definition mark :: "chunk \<Rightarrow> gen_state \<Rightarrow> gen_state" where
  "mark c s = s\<lparr>first_token := Some c, effects := effects s @ [Rt (Add_event ''new_token'')]\<rparr>"

definition started :: "env \<Rightarrow> string \<Rightarrow> gen_state" where
  "started env q =
     initial\<lparr>effects := [Rt (RunTree_init q (VERTEX_AI_MODEL env)), Rt Post]\<rparr>"

definition opened :: "env \<Rightarrow> string \<Rightarrow> gen_state" where
  "opened env q =
     initial\<lparr>effects := [Rt (RunTree_init q (VERTEX_AI_MODEL env)), Rt Post,
                          Generate_content_stream (VERTEX_AI_MODEL env) q]\<rparr>"

text \<open>
  The state when the loop has run through all chunks, when the success finalisation has
  been called, and when the trace has been patched.
\<close>

definition looped :: "env \<Rightarrow> string \<Rightarrow> gen_state" where
  "looped env q =
     (case chunks (genai_client env (VERTEX_AI_MODEL env) q) of
        [] \<Rightarrow> opened env q
      | c # cs \<Rightarrow> fold absorb (c # cs) (mark c (opened env q)))"

definition ended :: "env \<Rightarrow> string \<Rightarrow> gen_state" where
  "ended env q =
     (looped env q)\<lparr>effects := effects (looped env q) @
        [Yield Done,
         Rt (End_outputs (full_content (looped env q)) (input_tokens (looped env q))
               (output_tokens (looped env q))
               (input_tokens (looped env q) + output_tokens (looped env q)))]\<rparr>"

definition patched :: "env \<Rightarrow> string \<Rightarrow> gen_state" where
  "patched env q = (ended env q)\<lparr>effects := effects (ended env q) @ [Rt Patch]\<rparr>"

text \<open>
  The \<^verbatim>\<open>except\<close> clause run to its end on an \<^verbatim>\<open>Exception\<close> with description \<open>m\<close>.
\<close>

definition handled :: "env \<Rightarrow> string \<Rightarrow> gen_state \<Rightarrow> string option \<times> gen_state" where
  "handled env m s = leaves (except_block env (Exception m) s)"

section \<open>Example inputs\<close>

definition text_chunk :: "string \<Rightarrow> chunk" where
  "text_chunk t = \<lparr>chunk_text = Some t, usage_metadata = None\<rparr>"

definition usage_chunk :: "string \<Rightarrow> int \<Rightarrow> int \<Rightarrow> chunk" where
  "usage_chunk t i out =
     \<lparr>chunk_text = Some t,
      usage_metadata = Some \<lparr>prompt_token_count = i, candidates_token_count = out\<rparr>\<rparr>"

definition working :: "rt_site \<Rightarrow> string option" where
  "working site = None"

definition raising_at :: "rt_site \<Rightarrow> rt_site \<Rightarrow> string option" where
  "raising_at bad site = (if site = bad then Some ''recorder unavailable'' else None)"

definition demo_env :: "chunk stream \<Rightarrow> (rt_site \<Rightarrow> string option) \<Rightarrow> env" where
  "demo_env st rt =
     \<lparr>VERTEX_AI_MODEL = ''gemini'', genai_client = (\<lambda>model contents. st), rt_raises = rt\<rparr>"

definition ping :: "chunk stream" where
  "ping = \<lparr>chunks = [text_chunk ''P'', text_chunk ''i'', text_chunk ''ng''], failure = None\<rparr>"

definition partial_then_raise :: "chunk stream" where
  "partial_then_raise =
     \<lparr>chunks = [text_chunk ''partial''], failure = Some (Exception ''boom'')\<rparr>"

definition partial_then_cancelled :: "chunk stream" where
  "partial_then_cancelled =
     \<lparr>chunks = [text_chunk ''partial''], failure = Some (BaseException ''cancelled'')\<rparr>"

definition two_usages :: "chunk stream" where
  "two_usages =
     \<lparr>chunks = [usage_chunk ''a'' 3 1, text_chunk ''b'', usage_chunk ''c'' 3 2],
      failure = None\<rparr>"

definition empty_first :: "chunk stream" where
  "empty_first =
     \<lparr>chunks = [\<lparr>chunk_text = None, usage_metadata = None\<rparr>, text_chunk ''x''],
      failure = None\<rparr>"

definition wrapper_ping :: "string \<Rightarrow> string stream" where
  "wrapper_ping q = \<lparr>chunks = [''P'', ''i'', ''ng''], failure = None\<rparr>"

definition other_env :: env where
  "other_env =
     \<lparr>VERTEX_AI_MODEL = ''gemini-pro'',
      genai_client = (\<lambda>model contents. if contents = ''ping'' then ping else partial_then_raise),
      rt_raises = working\<rparr>"

definition wrapper_partial_then_raise :: "string \<Rightarrow> string stream" where
  "wrapper_partial_then_raise q =
     \<lparr>chunks = [''partial''], failure = Some (Exception ''boom'')\<rparr>"

section \<open>What the statements compute\<close>

lemma text_of_fragment: "text_of c = fragment c"
  by (simp add: text_of_def fragment_def split: option.splits)

lemma yields_append: "yields (xs @ ys) = yields xs @ yields ys"
  by (induction xs rule: yields.induct) simp_all

lemma rt_calls_append: "rt_calls (xs @ ys) = rt_calls xs @ rt_calls ys"
  by (induction xs rule: rt_calls.induct) simp_all

lemma prompts_append: "prompts (xs @ ys) = prompts xs @ prompts ys"
  by (induction xs rule: prompts.induct) simp_all

lemma loop_body_started:
  assumes "first_token s \<noteq> None"
  shows "loop_body env c s = (None, absorb c s)"
proof -
  from assms have "note_first_token env c s = (None, s)"
    by (cases "first_token s") (simp_all add: note_first_token_def)
  then show ?thesis
    by (simp add: loop_body_def emit_text_def yield_def absorb_def record_usage_def Let_def
        split: option.splits)
qed

lemma first_token_absorb: "first_token (absorb c s) = first_token s"
  by (simp add: absorb_def record_usage_def split: option.splits)

lemma async_for_started:
  "first_token s \<noteq> None \<Longrightarrow> async_for (loop_body env) cs fin s = (fin, fold absorb cs s)"
  by (induction cs arbitrary: s) (simp_all add: loop_body_started first_token_absorb)

lemma loop_body_first:
  assumes "first_token s = None"
  shows "loop_body env c s =
     (case rt_raises env At_add_event of
        Some e \<Rightarrow> (Some (Exception e), mark c s)
      | None \<Rightarrow> (None, absorb c (mark c s)))"
proof -
  from assms have "note_first_token env c s =
      (map_option Exception (rt_raises env At_add_event), mark c s)"
    by (simp add: note_first_token_def rt_call_def mark_def)
  then show ?thesis
    by (simp add: loop_body_def emit_text_def yield_def absorb_def record_usage_def Let_def
        split: option.splits)
qed

lemma async_for_first:
  "first_token s = None \<Longrightarrow>
   async_for (loop_body env) (c # cs) fin s =
     (case rt_raises env At_add_event of
        Some e \<Rightarrow> (Some (Exception e), mark c s)
      | None \<Rightarrow> (fin, fold absorb (c # cs) (mark c s)))"
  by (simp add: loop_body_first async_for_started first_token_absorb mark_def split: option.splits)

lemma full_content_fold:
  "full_content (fold absorb cs s) = full_content s @ concat (map fragment cs)"
  by (induction cs arbitrary: s) (simp_all add: absorb_def text_of_fragment)

lemma effects_fold:
  "effects (fold absorb cs s) = effects s @ map (\<lambda>c. Yield (Token (fragment c))) cs"
  by (induction cs arbitrary: s) (simp_all add: absorb_def text_of_fragment)

lemma first_token_fold: "first_token (fold absorb cs s) = first_token s"
  by (induction cs arbitrary: s) (simp_all add: first_token_absorb)

lemma totals_fold:
  "(input_tokens (fold absorb cs s), output_tokens (fold absorb cs s)) =
     (case usages cs of
        [] \<Rightarrow> (input_tokens s, output_tokens s)
      | u # us \<Rightarrow> (prompt_token_count (last (u # us)), candidates_token_count (last (u # us))))"
  by (induction cs arbitrary: s)
     (auto simp add: absorb_def record_usage_def split: option.splits list.splits)

lemma except_block_eq:
  "except_block env e s =
     (case rt_raises env At_end_error of
        Some e' \<Rightarrow>
          (Some (Exception e'),
           s\<lparr>effects := effects s @ [Print (str e), Rt (End_error (str e))]\<rparr>)
      | None \<Rightarrow>
          (case rt_raises env At_patch_error of
             Some e' \<Rightarrow>
               (Some (Exception e'),
                s\<lparr>effects := effects s @ [Print (str e), Rt (End_error (str e)), Rt Patch]\<rparr>)
           | None \<Rightarrow>
               (None,
                s\<lparr>effects := effects s @
                   [Print (str e), Rt (End_error (str e)), Rt Patch, Yield Error]\<rparr>)))"
  by (simp add: except_block_def rt_call_def yield_def split: option.splits)

lemma generate_eq:
  "generate env q =
     (case rt_raises env At_RunTree of
        Some e \<Rightarrow> (Some e, initial\<lparr>effects := [Rt (RunTree_init q (VERTEX_AI_MODEL env))]\<rparr>)
      | None \<Rightarrow>
          (case rt_raises env At_post of
             Some e \<Rightarrow> (Some e, started env q)
           | None \<Rightarrow>
               leaves
                 (case try_block env q (started env q) of
                    (None, s') \<Rightarrow> (None, s')
                  | (Some e, s') \<Rightarrow>
                      if is_Exception e then except_block env e s' else (Some e, s'))))"
  by (simp add: generate_def rt_call_def started_def initial_def leaves_def
      split: option.splits)

lemma try_block_eq:
  "try_block env q s =
     (case consume_stream env q s of
        (Some e, s1) \<Rightarrow> (Some e, s1)
      | (None, s1) \<Rightarrow>
          (case rt_raises env At_end_outputs of
             Some e \<Rightarrow>
               (Some (Exception e), s1\<lparr>effects := effects s1 @
                  [Yield Done,
                   Rt (End_outputs (full_content s1) (input_tokens s1) (output_tokens s1)
                         (input_tokens s1 + output_tokens s1))]\<rparr>)
           | None \<Rightarrow>
               (map_option Exception (rt_raises env At_patch), s1\<lparr>effects := effects s1 @
                  [Yield Done,
                   Rt (End_outputs (full_content s1) (input_tokens s1) (output_tokens s1)
                         (input_tokens s1 + output_tokens s1)),
                   Rt Patch]\<rparr>)))"
  by (simp add: try_block_def rt_call_def yield_def split: option.splits prod.splits)

lemma consume_started:
  "consume_stream env q (started env q) =
     (case chunks (genai_client env (VERTEX_AI_MODEL env) q) of
        [] \<Rightarrow> (failure (genai_client env (VERTEX_AI_MODEL env) q), opened env q)
      | c # cs \<Rightarrow>
          (case rt_raises env At_add_event of
             Some e \<Rightarrow> (Some (Exception e), mark c (opened env q))
           | None \<Rightarrow> (failure (genai_client env (VERTEX_AI_MODEL env) q),
                       fold absorb (c # cs) (mark c (opened env q)))))"
proof -
  have s: "(started env q)\<lparr>effects := effects (started env q) @
             [Generate_content_stream (VERTEX_AI_MODEL env) q]\<rparr> = opened env q"
    by (simp add: started_def opened_def initial_def)
  have f: "first_token (opened env q) = None"
    by (simp add: opened_def initial_def)
  show ?thesis
    by (cases "chunks (genai_client env (VERTEX_AI_MODEL env) q)")
       (simp_all add: consume_stream_def Let_def s async_for_first [OF f]
          del: async_for.simps(2))
qed

lemma absorb_simps:
  "full_content (absorb c s) = full_content s @ fragment c"
  "effects (absorb c s) = effects s @ [Yield (Token (fragment c))]"
  by (simp_all add: absorb_def text_of_fragment)

lemma yields_tokens: "yields (map (\<lambda>c. Yield (Token (f c))) cs) = map (\<lambda>c. Token (f c)) cs"
  by (induction cs) simp_all

lemma rt_calls_tokens: "rt_calls (map (\<lambda>c. Yield (Token (f c))) cs) = []"
  by (induction cs) simp_all

lemma prompts_tokens: "prompts (map (\<lambda>c. Yield (Token (f c))) cs) = []"
  by (induction cs) simp_all

lemma totals_run:
  "input_tokens s = 0 \<Longrightarrow> output_tokens s = 0 \<Longrightarrow>
   (input_tokens (fold absorb cs s), output_tokens (fold absorb cs s)) = last_usage cs"
  using totals_fold [of cs s] by (simp add: last_usage_def split: list.splits)

lemma leaves_simps:
  "fst (leaves r) = map_option str (fst r)"
  "snd (leaves r) = snd r"
  "leaves (x, s) = (map_option str x, s)"
  by (simp_all add: leaves_def)

lemma healthy_run:
  assumes h: "rt_healthy env"
  shows "fst (generate env q) =
           (case failure (genai_client env (VERTEX_AI_MODEL env) q) of
              None \<Rightarrow> None
            | Some e \<Rightarrow> if is_Exception e then None else Some (str e))"
    and "events (generate env q) =
           map (\<lambda>c. Token (fragment c)) (chunks (genai_client env (VERTEX_AI_MODEL env) q)) @
           (case failure (genai_client env (VERTEX_AI_MODEL env) q) of
              None \<Rightarrow> [Done]
            | Some e \<Rightarrow> if is_Exception e then [Error] else [])"
    and "full_content (snd (generate env q)) =
           concat (map fragment (chunks (genai_client env (VERTEX_AI_MODEL env) q)))"
  using h
  by (simp_all add: rt_healthy_def generate_eq try_block_eq consume_started except_block_eq
      events_def yields_append effects_fold full_content_fold mark_def opened_def initial_def
      absorb_simps yields_tokens leaves_simps
      split: list.splits option.splits)

lemma healthy_totals:
  assumes h: "rt_healthy env"
  shows "(input_tokens (snd (generate env q)), output_tokens (snd (generate env q))) =
           last_usage (chunks (genai_client env (VERTEX_AI_MODEL env) q))"
proof (cases "chunks (genai_client env (VERTEX_AI_MODEL env) q)")
  case Nil
  with h show ?thesis
    by (simp add: rt_healthy_def generate_eq try_block_eq consume_started except_block_eq
        opened_def initial_def last_usage_def leaves_simps split: option.splits)
next
  case (Cons c cs)
  have "(input_tokens (fold absorb (c # cs) (mark c (opened env q))),
         output_tokens (fold absorb (c # cs) (mark c (opened env q)))) = last_usage (c # cs)"
    by (rule totals_run) (simp_all add: mark_def opened_def initial_def)
  with h Cons show ?thesis
    by (simp add: rt_healthy_def generate_eq try_block_eq consume_started except_block_eq
        leaves_simps split: option.splits)
qed

lemma wrapper_loop:
  "async_for wrapper_body cs fin s = (fin, s @ map (\<lambda>c. Yield (Token c)) cs)"
  by (induction cs arbitrary: s) (simp_all add: wrapper_body_def)

lemma wrapper_generate_eq:
  "wrapper_generate astream q =
     (case failure (astream q) of
        None \<Rightarrow> (None, Astream q # map (\<lambda>c. Yield (Token c)) (chunks (astream q)) @ [Yield Done])
      | Some e \<Rightarrow>
          (Some (str e), Astream q # map (\<lambda>c. Yield (Token c)) (chunks (astream q))))"
  by (simp add: wrapper_generate_def Let_def wrapper_loop leaves_simps split: option.splits)

lemma wrapper_events_eq:
  "wrapper_events (wrapper_generate astream q) =
     map Token (chunks (astream q)) @ (case failure (astream q) of None \<Rightarrow> [Done] | Some e \<Rightarrow> [])"
  using yields_tokens [of "\<lambda>c. c" "chunks (astream q)"]
  by (simp add: wrapper_generate_eq wrapper_events_def yields_append split: option.splits)

lemma terminals_tokens: "terminals (map (\<lambda>c. Token (f c)) cs) = []"
  by (induction cs) (simp_all add: terminals_def)

lemma terminals_append: "terminals (xs @ ys) = terminals xs @ terminals ys"
  by (simp add: terminals_def)

lemma started_simps:
  "full_content (started env q) = []"
  "input_tokens (started env q) = 0"
  "output_tokens (started env q) = 0"
  "first_token (started env q) = None"
  "effects (started env q) = [Rt (RunTree_init q (VERTEX_AI_MODEL env)), Rt Post]"
  by (simp_all add: started_def initial_def)

lemma consume_looped:
  "consume_stream env q (started env q) =
     (case chunks (genai_client env (VERTEX_AI_MODEL env) q) of
        [] \<Rightarrow> (failure (genai_client env (VERTEX_AI_MODEL env) q), looped env q)
      | c # cs \<Rightarrow>
          (case rt_raises env At_add_event of
             Some e \<Rightarrow> (Some (Exception e), mark c (opened env q))
           | None \<Rightarrow> (failure (genai_client env (VERTEX_AI_MODEL env) q), looped env q)))"
  by (cases "chunks (genai_client env (VERTEX_AI_MODEL env) q)")
     (simp_all add: consume_started looped_def split: option.splits)

lemma try_block_loop_ok:
  assumes "consume_stream env q (started env q) = (None, looped env q)"
  shows "try_block env q (started env q) =
     (case rt_raises env At_end_outputs of
        Some e \<Rightarrow> (Some (Exception e), ended env q)
      | None \<Rightarrow> (map_option Exception (rt_raises env At_patch), patched env q))"
  by (simp add: try_block_eq assms ended_def patched_def split: option.splits)

lemma try_block_loop_raises:
  assumes "consume_stream env q (started env q) = (Some e, s)"
  shows "try_block env q (started env q) = (Some e, s)"
  by (simp add: try_block_eq assms)

lemma generate_cases [case_names init_raises post_raises marker_raises stream_raises
    stream_escapes end_raises patch_raises success]:
  fixes env q
  defines "st \<equiv> genai_client env (VERTEX_AI_MODEL env) q"
  obtains
    e where "rt_raises env At_RunTree = Some e"
      and "generate env q =
             (Some e, initial\<lparr>effects := [Rt (RunTree_init q (VERTEX_AI_MODEL env))]\<rparr>)"
  | e where "rt_raises env At_RunTree = None" and "rt_raises env At_post = Some e"
      and "generate env q = (Some e, started env q)"
  | c cs e where "rt_raises env At_RunTree = None" and "rt_raises env At_post = None"
      and "chunks st = c # cs" and "rt_raises env At_add_event = Some e"
      and "generate env q = handled env e (mark c (opened env q))"
  | e where "rt_raises env At_RunTree = None" and "rt_raises env At_post = None"
      and "chunks st = [] \<or> rt_raises env At_add_event = None"
      and "failure st = Some (Exception e)"
      and "generate env q = handled env e (looped env q)"
  | e where "rt_raises env At_RunTree = None" and "rt_raises env At_post = None"
      and "chunks st = [] \<or> rt_raises env At_add_event = None"
      and "failure st = Some (BaseException e)"
      and "generate env q = (Some e, looped env q)"
  | e where "rt_raises env At_RunTree = None" and "rt_raises env At_post = None"
      and "chunks st = [] \<or> rt_raises env At_add_event = None"
      and "failure st = None" and "rt_raises env At_end_outputs = Some e"
      and "generate env q = handled env e (ended env q)"
  | e where "rt_raises env At_RunTree = None" and "rt_raises env At_post = None"
      and "chunks st = [] \<or> rt_raises env At_add_event = None"
      and "failure st = None" and "rt_raises env At_end_outputs = None"
      and "rt_raises env At_patch = Some e"
      and "generate env q = handled env e (patched env q)"
  | "rt_raises env At_RunTree = None" and "rt_raises env At_post = None"
      and "chunks st = [] \<or> rt_raises env At_add_event = None"
      and "failure st = None" and "rt_raises env At_end_outputs = None"
      and "rt_raises env At_patch = None"
      and "generate env q = (None, patched env q)"
proof (cases "rt_raises env At_RunTree")
  case (Some e)
  then show thesis using that(1) by (simp add: generate_eq)
next
  case a: None
  show thesis
  proof (cases "rt_raises env At_post")
    case (Some e)
    with a show thesis using that(2) by (simp add: generate_eq)
  next
    case b: None
    have g: "generate env q =
        leaves
          (case try_block env q (started env q) of
             (None, s') \<Rightarrow> (None, s')
           | (Some e, s') \<Rightarrow>
               if is_Exception e then except_block env e s' else (Some e, s'))"
      using a b by (simp add: generate_eq)
    show thesis
    proof (cases "chunks st = [] \<or> rt_raises env At_add_event = None")
      case False
      then obtain c cs e where c: "chunks st = c # cs" and e: "rt_raises env At_add_event = Some e"
        by (cases "chunks st") auto
      have "consume_stream env q (started env q) = (Some (Exception e), mark c (opened env q))"
        using c e by (simp add: consume_looped st_def)
      then have "generate env q = handled env e (mark c (opened env q))"
        by (simp add: g try_block_loop_raises handled_def)
      with a b c e show thesis using that(3) by blast
    next
      case ok: True
      have l: "consume_stream env q (started env q) = (failure st, looped env q)"
        using ok by (auto simp add: consume_looped st_def split: list.splits)
      show thesis
      proof (cases "failure st")
        case (Some x)
        show thesis
        proof (cases x)
          case (Exception e)
          with l Some have "generate env q = handled env e (looped env q)"
            by (simp add: g try_block_loop_raises handled_def)
          with a b ok Some Exception show thesis using that(4) by blast
        next
          case (BaseException e)
          with l Some have "generate env q = (Some e, looped env q)"
            by (simp add: g try_block_loop_raises leaves_simps)
          with a b ok Some BaseException show thesis using that(5) by blast
        qed
      next
        case f: None
        with l have t: "try_block env q (started env q) =
            (case rt_raises env At_end_outputs of
               Some e \<Rightarrow> (Some (Exception e), ended env q)
             | None \<Rightarrow> (map_option Exception (rt_raises env At_patch), patched env q))"
          by (simp add: try_block_loop_ok)
        show thesis
        proof (cases "rt_raises env At_end_outputs")
          case (Some e)
          then have "generate env q = handled env e (ended env q)"
            by (simp add: g t handled_def)
          with a b ok f Some show thesis using that(6) by blast
        next
          case d: None
          show thesis
          proof (cases "rt_raises env At_patch")
            case (Some e)
            then have "generate env q = handled env e (patched env q)"
              by (simp add: g t d handled_def)
            with a b ok f d Some show thesis using that(7) by blast
          next
            case None
            then have "generate env q = (None, patched env q)"
              by (simp add: g t d leaves_simps)
            with a b ok f d None show thesis using that(8) by blast
          qed
        qed
      qed
    qed
  qed
qed

lemma tokens_append: "tokens (xs @ ys) = tokens xs @ tokens ys"
  by (simp add: tokens_def)

lemma tokens_tokens: "tokens (map (\<lambda>c. Token (f c)) cs) = map f cs"
  by (induction cs) (simp_all add: tokens_def)

lemma tokens_simps: "tokens [] = []" "tokens [Done] = []" "tokens [Error] = []" 
  "tokens [Done, Error] = []"
  by (simp_all add: tokens_def)

lemma opened_simps:
  "full_content (opened env q) = []"
  "input_tokens (opened env q) = 0"
  "output_tokens (opened env q) = 0"
  "first_token (opened env q) = None"
  "effects (opened env q) =
     [Rt (RunTree_init q (VERTEX_AI_MODEL env)), Rt Post,
      Generate_content_stream (VERTEX_AI_MODEL env) q]"
  by (simp_all add: opened_def initial_def)

lemma mark_simps:
  "full_content (mark c s) = full_content s"
  "input_tokens (mark c s) = input_tokens s"
  "output_tokens (mark c s) = output_tokens s"
  "first_token (mark c s) = Some c"
  "effects (mark c s) = effects s @ [Rt (Add_event ''new_token'')]"
  by (simp_all add: mark_def)

lemma looped_content:
  "full_content (looped env q) =
     concat (map fragment (chunks (genai_client env (VERTEX_AI_MODEL env) q)))"
  by (simp add: looped_def full_content_fold absorb_simps mark_simps opened_simps
      split: list.splits)

lemma looped_effects:
  "effects (looped env q) =
     [Rt (RunTree_init q (VERTEX_AI_MODEL env)), Rt Post,
      Generate_content_stream (VERTEX_AI_MODEL env) q] @
     (if chunks (genai_client env (VERTEX_AI_MODEL env) q) = [] then []
      else [Rt (Add_event ''new_token'')]) @
     map (\<lambda>c. Yield (Token (fragment c))) (chunks (genai_client env (VERTEX_AI_MODEL env) q))"
  by (simp add: looped_def effects_fold absorb_simps mark_simps opened_simps
      split: list.splits)

lemma looped_totals:
  "(input_tokens (looped env q), output_tokens (looped env q)) =
     last_usage (chunks (genai_client env (VERTEX_AI_MODEL env) q))"
proof (cases "chunks (genai_client env (VERTEX_AI_MODEL env) q)")
  case Nil
  then show ?thesis by (simp add: looped_def opened_simps last_usage_def)
next
  case (Cons c cs)
  have "(input_tokens (fold absorb (c # cs) (mark c (opened env q))),
         output_tokens (fold absorb (c # cs) (mark c (opened env q)))) = last_usage (c # cs)"
    by (rule totals_run) (simp_all add: mark_simps opened_simps)
  with Cons show ?thesis by (simp add: looped_def)
qed

lemma ended_simps:
  "full_content (ended env q) = full_content (looped env q)"
  "input_tokens (ended env q) = input_tokens (looped env q)"
  "output_tokens (ended env q) = output_tokens (looped env q)"
  "effects (ended env q) = effects (looped env q) @
        [Yield Done,
         Rt (End_outputs (full_content (looped env q)) (input_tokens (looped env q))
               (output_tokens (looped env q))
               (input_tokens (looped env q) + output_tokens (looped env q)))]"
  by (simp_all add: ended_def)

lemma patched_simps:
  "full_content (patched env q) = full_content (looped env q)"
  "input_tokens (patched env q) = input_tokens (looped env q)"
  "output_tokens (patched env q) = output_tokens (looped env q)"
  "effects (patched env q) = effects (ended env q) @ [Rt Patch]"
  by (simp_all add: patched_def ended_simps)

lemma except_simps:
  "full_content (snd (handled env e s)) = full_content s"
  "input_tokens (snd (handled env e s)) = input_tokens s"
  "output_tokens (snd (handled env e s)) = output_tokens s"
  "fst (handled env e s) =
     (case rt_raises env At_end_error of Some e' \<Rightarrow> Some e' | None \<Rightarrow> rt_raises env At_patch_error)"
  "effects (snd (handled env e s)) =
     effects s @ [Print e, Rt (End_error e)] @
     (if rt_raises env At_end_error = None
      then Rt Patch # (if rt_raises env At_patch_error = None then [Yield Error] else [])
      else [])"
  by (simp_all add: handled_def except_block_eq leaves_simps split: option.splits)

lemma initial_simps:
  "full_content (initial\<lparr>effects := es\<rparr>) = []"
  "input_tokens (initial\<lparr>effects := es\<rparr>) = 0"
  "output_tokens (initial\<lparr>effects := es\<rparr>) = 0"
  by (simp_all add: initial_def)

lemmas shape =
  looped_content looped_effects ended_simps patched_simps except_simps started_simps
  opened_simps mark_simps initial_simps yields_append yields_tokens rt_calls_append
  rt_calls_tokens prompts_append prompts_tokens

lemma run_tokens:
  "tokens (events (generate env q)) =
     map fragment (take (length (tokens (events (generate env q))))
       (chunks (genai_client env (VERTEX_AI_MODEL env) q)))"
  by (cases rule: generate_cases [of env q])
     (simp_all add: events_def shape tokens_append tokens_tokens tokens_simps)

lemma run_buffer:
  "full_content (snd (generate env q)) = concat (tokens (events (generate env q)))"
  by (cases rule: generate_cases [of env q])
     (simp_all add: events_def shape tokens_append tokens_tokens tokens_simps)

lemma wrapper_fst: "fst (wrapper_generate astream q) = map_option str (failure (astream q))"
  by (simp add: wrapper_generate_eq split: option.splits)

lemma emit_text_eq:
  "emit_text c s =
     (None, s\<lparr>full_content := full_content s @ fragment c,
               effects := effects s @ [Yield (Token (fragment c))]\<rparr>)"
  by (simp add: emit_text_def yield_def Let_def text_of_fragment)

lemma last_usage_snoc:
  "last_usage (cs @ [c]) =
     (case usage_metadata c of
        Some u \<Rightarrow> (prompt_token_count u, candidates_token_count u)
      | None \<Rightarrow> last_usage cs)"
proof -
  have u: "usages (cs @ [c]) =
      usages cs @ (case usage_metadata c of Some u \<Rightarrow> [u] | None \<Rightarrow> [])"
    by (induction cs) (simp_all split: option.splits)
  show ?thesis
    by (simp add: last_usage_def u split: option.splits)
qed

lemma usages_none: "(\<forall>c\<in>set cs. usage_metadata c = None) \<Longrightarrow> usages cs = []"
  by (induction cs) simp_all

lemma finalised:
  "End_outputs out i o' t \<in> set (rt_calls (effects (snd (generate env q)))) \<Longrightarrow>
   failure (genai_client env (VERTEX_AI_MODEL env) q) = None \<and>
   out = full_content (looped env q) \<and> i = input_tokens (looped env q) \<and>
   o' = output_tokens (looped env q) \<and> t = i + o'"
  by (cases rule: generate_cases [of env q])
     (auto simp add: shape split: if_splits)

lemma healthy_finalises:
  assumes "rt_healthy env" and "failure (genai_client env (VERTEX_AI_MODEL env) q) = None"
  shows "End_outputs (full_content (looped env q)) (input_tokens (looped env q))
           (output_tokens (looped env q))
           (input_tokens (looped env q) + output_tokens (looped env q))
         \<in> set (rt_calls (effects (snd (generate env q))))"
  using assms
  by (cases rule: generate_cases [of env q])
     (simp_all add: rt_healthy_def shape)

lemma markers_count:
  "markers (generate env q) =
     (if rt_raises env At_RunTree = None \<and> rt_raises env At_post = None \<and>
         chunks (genai_client env (VERTEX_AI_MODEL env) q) \<noteq> []
      then 1 else 0)"
  by (cases rule: generate_cases [of env q])
     (auto simp add: markers_def shape)

lemma marker_first:
  assumes "rt_raises env At_RunTree = None" and "rt_raises env At_post = None"
    and "chunks (genai_client env (VERTEX_AI_MODEL env) q) = c # cs"
  shows "take 4 (effects (snd (generate env q))) =
     [Rt (RunTree_init q (VERTEX_AI_MODEL env)), Rt Post,
      Generate_content_stream (VERTEX_AI_MODEL env) q, Rt (Add_event ''new_token'')]"
  using assms
  by (cases rule: generate_cases [of env q])
     (simp_all add: shape)

lemma cut_short_prefix: "prefix evs full \<Longrightarrow> cut_short evs full"
  by (simp add: cut_short_def)

lemma cut_short_error: "prefix pre full \<Longrightarrow> cut_short (pre @ [Error]) full"
  by (simp add: cut_short_def)

lemma cut_short_tail:
  "prefix pre full \<Longrightarrow> cut_short (pre @ (if b then [Error] else [])) full"
  by (simp add: cut_short_prefix cut_short_error)

lemma working_run:
  "events (generate (env\<lparr>rt_raises := working\<rparr>) q) =
     map (\<lambda>c. Token (fragment c)) (chunks (genai_client env (VERTEX_AI_MODEL env) q)) @
     (case failure (genai_client env (VERTEX_AI_MODEL env) q) of
        None \<Rightarrow> [Done]
      | Some e \<Rightarrow> if is_Exception e then [Error] else [])"
proof -
  have "rt_healthy (env\<lparr>rt_raises := working\<rparr>)"
    by (simp add: rt_healthy_def working_def)
  from healthy_run(2) [OF this, of q] show ?thesis by simp
qed

lemma except_events:
  "events (handled env e s) =
     yields (effects s) @
     (if rt_raises env At_end_error = None \<and> rt_raises env At_patch_error = None
      then [Error] else [])"
  by (simp add: events_def except_simps yields_append)

lemma events_cut_short:
  "cut_short (events (generate env q)) (events (generate (env\<lparr>rt_raises := working\<rparr>) q))"
proof (cases rule: generate_cases [of env q])
  case (init_raises e)
  then show ?thesis by (simp add: events_def shape cut_short_prefix)
next
  case (post_raises e)
  then show ?thesis by (simp add: events_def shape cut_short_prefix)
next
  case (marker_raises c cs e)
  show ?thesis
    unfolding marker_raises(5) except_events
    by (rule cut_short_tail) (simp add: shape)
next
  case (stream_raises e)
  have w: "events (generate (env\<lparr>rt_raises := working\<rparr>) q) =
      map (\<lambda>c. Token (fragment c)) (chunks (genai_client env (VERTEX_AI_MODEL env) q)) @ [Error]"
    by (simp add: working_run stream_raises(4))
  show ?thesis
    unfolding stream_raises(5) except_events w
    by (rule cut_short_tail) (simp add: shape)
next
  case (stream_escapes e)
  then show ?thesis by (simp add: working_run) (simp add: events_def shape cut_short_prefix)
next
  case (end_raises e)
  have w: "events (generate (env\<lparr>rt_raises := working\<rparr>) q) =
      map (\<lambda>c. Token (fragment c)) (chunks (genai_client env (VERTEX_AI_MODEL env) q)) @ [Done]"
    by (simp add: working_run end_raises(4))
  show ?thesis
    unfolding end_raises(6) except_events w
    by (rule cut_short_tail) (simp add: shape)
next
  case (patch_raises e)
  have w: "events (generate (env\<lparr>rt_raises := working\<rparr>) q) =
      map (\<lambda>c. Token (fragment c)) (chunks (genai_client env (VERTEX_AI_MODEL env) q)) @ [Done]"
    by (simp add: working_run patch_raises(4))
  show ?thesis
    unfolding patch_raises(7) except_events w
    by (rule cut_short_tail) (simp add: shape)
next
  case success
  then show ?thesis by (simp add: working_run) (simp add: events_def shape cut_short_prefix)
qed

lemma start_raises:
  "rt_raises env At_RunTree = Some e \<Longrightarrow>
     generate env q =
       (Some e, initial\<lparr>effects := [Rt (RunTree_init q (VERTEX_AI_MODEL env))]\<rparr>)"
  "rt_raises env At_RunTree = None \<Longrightarrow> rt_raises env At_post = Some e \<Longrightarrow>
     generate env q = (Some e, started env q)"
  by (simp_all add: generate_eq)

lemma marker_raises_handled:
  assumes "rt_raises env At_RunTree = None" "rt_raises env At_post = None"
    "chunks (genai_client env (VERTEX_AI_MODEL env) q) = c # cs"
    "rt_raises env At_add_event = Some e"
    "rt_raises env At_end_error = None" "rt_raises env At_patch_error = None"
  shows "fst (generate env q) = None" "events (generate env q) = [Error]"
    "rt_calls (effects (snd (generate env q))) =
       [RunTree_init q (VERTEX_AI_MODEL env), Post, Add_event ''new_token'', End_error e, Patch]"
  using assms
  by (cases rule: generate_cases [of env q]; simp add: events_def shape)+

text \<open>Unfolding everything a run is made of, to evaluate it on a concrete input.\<close>

lemmas run_eval =
  generate_def try_block_def except_block_def consume_stream_def loop_body_def
  note_first_token_def record_usage_def emit_text_def text_of_def rt_call_def yield_def
  initial_def events_def Let_def leaves_def
  wrapper_generate_def wrapper_body_def wrapper_events_def
  demo_env_def working_def raising_at_def text_chunk_def usage_chunk_def
  ping_def partial_then_raise_def partial_then_cancelled_def wrapper_partial_then_raise_def

text \<open>
  On the wire a token frame can be the frame of a terminal event: events are told apart
  by the statement that yields them, not by their bytes.
\<close>

lemma token_frame_like_done: "render (Token ''[DONE]'') = render Done"
  by (simp add: data_frame_def)

section \<open>The claims\<close>

subsection \<open>C1: one terminal event, and it is last\<close>

text \<open>
  As stated for every invocation the claim fails. When \<^verbatim>\<open>rt.end(outputs=...)\<close> raises,
  the done event has already been yielded and the \<^verbatim>\<open>except\<close> clause yields an error
  event after it: two terminal events. When \<^verbatim>\<open>rt.post()\<close> raises, the generator is left
  before its \<^verbatim>\<open>try\<close> and no event is yielded. When the upstream raises an exception that
  is not an instance of \<^verbatim>\<open>Exception\<close>, such as the \<^verbatim>\<open>CancelledError\<close> of a cancelled
  request, \<^verbatim>\<open>except Exception\<close> does not catch it and no terminal event is yielded,
  with a working recorder too. The handler of \<^verbatim>\<open>example_wrapper.py\<close> has no \<^verbatim>\<open>try\<close>:
  an upstream exception ends it with no terminal event.
\<close>

theorem two_or_no_terminal_events:
  "terminals (events (generate (demo_env ping (raising_at At_end_outputs)) ''ping'')) =
     [Done, Error] \<and>
   terminals (events (generate (demo_env ping (raising_at At_post)) ''ping'')) = [] \<and>
   terminals (events (generate (demo_env partial_then_cancelled working) ''ping'')) = [] \<and>
   fst (generate (demo_env partial_then_cancelled working) ''ping'') = Some ''cancelled'' \<and>
   terminals (wrapper_events (wrapper_generate wrapper_partial_then_raise ''ping'')) = []"
  by (simp add: run_eval terminals_def)

text \<open>
  C1, amended. In every invocation of the handler of \<^verbatim>\<open>main.py\<close> in which no
  trace-recorder call raises, the full-output buffer is the concatenation of the
  fragments of the chunks the upstream yielded before it ended or raised, and the token
  totals are the usage values of the last of those chunks that carried usage. If moreover
  the upstream sequence ends normally or raises an instance of \<^verbatim>\<open>Exception\<close>, the
  generator returns normally, the events contain exactly one terminal event and it is the
  last event: done when the upstream sequence ended normally, error when it raised. In
  the handler of \<^verbatim>\<open>example_wrapper.py\<close>, when the upstream sequence ends normally, the
  done event is the one terminal event and the last event.
\<close>

theorem one_terminal_event_when_recorder_works:
  "(rt_healthy env \<longrightarrow>
      full_content (snd (generate env q)) =
        concat (map fragment (chunks (genai_client env (VERTEX_AI_MODEL env) q))) \<and>
      (input_tokens (snd (generate env q)), output_tokens (snd (generate env q))) =
        last_usage (chunks (genai_client env (VERTEX_AI_MODEL env) q)) \<and>
      (ends_or_raises_Exception (genai_client env (VERTEX_AI_MODEL env) q) \<longrightarrow>
         fst (generate env q) = None \<and>
         events (generate env q) \<noteq> [] \<and>
         terminals (events (generate env q)) = [last (events (generate env q))] \<and>
         (last (events (generate env q)) = Done) =
           (failure (genai_client env (VERTEX_AI_MODEL env) q) = None))) \<and>
   (failure (astream q) = None \<longrightarrow>
      fst (wrapper_generate astream q) = None \<and>
      wrapper_events (wrapper_generate astream q) \<noteq> [] \<and>
      terminals (wrapper_events (wrapper_generate astream q)) =
        [last (wrapper_events (wrapper_generate astream q))] \<and>
      last (wrapper_events (wrapper_generate astream q)) = Done)"
  using terminals_tokens [of fragment] terminals_tokens [of "\<lambda>c. c"]
  by (simp add: healthy_run healthy_totals wrapper_events_eq wrapper_fst terminals_append
      ends_or_raises_Exception_def split: option.splits)
     (simp add: terminals_def)

theorem one_terminal_event_example:
  "rt_healthy (demo_env partial_then_raise working) \<and>
   ends_or_raises_Exception (genai_client (demo_env partial_then_raise working)
     (VERTEX_AI_MODEL (demo_env partial_then_raise working)) ''ping'') \<and>
   events (generate (demo_env partial_then_raise working) ''ping'') =
     [Token ''partial'', Error] \<and>
   terminals (events (generate (demo_env partial_then_raise working) ''ping'')) = [Error] \<and>
   full_content (snd (generate (demo_env partial_then_raise working) ''ping'')) = ''partial'' \<and>
   input_tokens (snd (generate (demo_env partial_then_raise working) ''ping'')) = 0 \<and>
   failure (wrapper_ping ''ping'') = None \<and>
   wrapper_events (wrapper_generate wrapper_ping ''ping'') =
     [Token ''P'', Token ''i'', Token ''ng'', Done] \<and>
   terminals (wrapper_events (wrapper_generate wrapper_ping ''ping'')) = [Done]"
  using one_terminal_event_when_recorder_works
    [of "demo_env partial_then_raise working" "''ping''" wrapper_ping]
  by (simp add: run_eval rt_healthy_def wrapper_ping_def terminals_def
      ends_or_raises_Exception_def)

subsection \<open>C2: an upstream failure after k chunks\<close>

text \<open>
  As stated the claim fails. When \<^verbatim>\<open>rt.end(error=...)\<close> raises inside the
  \<^verbatim>\<open>except\<close> clause, the recorder's exception leaves the generator before the error
  event is yielded. When the upstream raises an exception that is not an instance of
  \<^verbatim>\<open>Exception\<close>, such as the \<^verbatim>\<open>CancelledError\<close> of a cancelled request, the
  \<^verbatim>\<open>except Exception\<close> clause does not catch it: no error event is yielded and the
  exception leaves the generator, with a working recorder too. The handler of
  \<^verbatim>\<open>example_wrapper.py\<close> lets every upstream exception through with no error event.
\<close>

theorem upstream_failure_without_error_event:
  "failure partial_then_raise = Some (Exception ''boom'') \<and>
   events (generate (demo_env partial_then_raise (raising_at At_end_error)) ''ping'') =
     [Token ''partial''] \<and>
   fst (generate (demo_env partial_then_raise (raising_at At_end_error)) ''ping'') =
     Some ''recorder unavailable'' \<and>
   failure partial_then_cancelled = Some (BaseException ''cancelled'') \<and>
   events (generate (demo_env partial_then_cancelled working) ''ping'') =
     [Token ''partial''] \<and>
   fst (generate (demo_env partial_then_cancelled working) ''ping'') = Some ''cancelled'' \<and>
   wrapper_events (wrapper_generate wrapper_partial_then_raise ''ping'') =
     [Token ''partial''] \<and>
   fst (wrapper_generate wrapper_partial_then_raise ''ping'') = Some ''boom''"
  by (simp add: run_eval)

text \<open>
  C2, amended. In the handler of \<^verbatim>\<open>main.py\<close>, when no trace-recorder call raises and
  the upstream sequence raises an instance of \<^verbatim>\<open>Exception\<close> with description \<open>e\<close> after
  yielding the chunks \<open>cs\<close>, the events are the token events of \<open>cs\<close>, in order, followed
  by one error event and no done event. The exception is printed and passed to
  \<^verbatim>\<open>rt.end(error=...)\<close>, the trace is patched, the error event is yielded, and the
  generator returns normally: nothing reaches the transport. When the exception is not an
  instance of \<^verbatim>\<open>Exception\<close> (a cancellation), it is not caught: the events are the token
  events of \<open>cs\<close> and nothing else, nothing is printed or passed to the recorder, and the
  exception leaves the generator.
\<close>

theorem upstream_failure_tokens_then_error:
  assumes "rt_healthy env"
  shows
  "(genai_client env (VERTEX_AI_MODEL env) q = \<lparr>chunks = cs, failure = Some (Exception e)\<rparr> \<longrightarrow>
      events (generate env q) = map (\<lambda>c. Token (fragment c)) cs @ [Error] \<and>
      fst (generate env q) = None \<and>
      effects (snd (generate env q)) =
        [Rt (RunTree_init q (VERTEX_AI_MODEL env)), Rt Post,
         Generate_content_stream (VERTEX_AI_MODEL env) q] @
        (if cs = [] then [] else [Rt (Add_event ''new_token'')]) @
        map (\<lambda>c. Yield (Token (fragment c))) cs @
        [Print e, Rt (End_error e), Rt Patch, Yield Error]) \<and>
   (genai_client env (VERTEX_AI_MODEL env) q =
      \<lparr>chunks = cs, failure = Some (BaseException e)\<rparr> \<longrightarrow>
      events (generate env q) = map (\<lambda>c. Token (fragment c)) cs \<and>
      fst (generate env q) = Some e \<and>
      effects (snd (generate env q)) =
        [Rt (RunTree_init q (VERTEX_AI_MODEL env)), Rt Post,
         Generate_content_stream (VERTEX_AI_MODEL env) q] @
        (if cs = [] then [] else [Rt (Add_event ''new_token'')]) @
        map (\<lambda>c. Yield (Token (fragment c))) cs)"
proof (intro conjI impI)
  assume "genai_client env (VERTEX_AI_MODEL env) q = \<lparr>chunks = cs, failure = Some (Exception e)\<rparr>"
  with assms show "events (generate env q) = map (\<lambda>c. Token (fragment c)) cs @ [Error]"
    and "fst (generate env q) = None"
    and "effects (snd (generate env q)) =
        [Rt (RunTree_init q (VERTEX_AI_MODEL env)), Rt Post,
         Generate_content_stream (VERTEX_AI_MODEL env) q] @
        (if cs = [] then [] else [Rt (Add_event ''new_token'')]) @
        map (\<lambda>c. Yield (Token (fragment c))) cs @
        [Print e, Rt (End_error e), Rt Patch, Yield Error]"
    by (cases rule: generate_cases [of env q]; simp add: rt_healthy_def events_def shape)+
next
  assume "genai_client env (VERTEX_AI_MODEL env) q =
      \<lparr>chunks = cs, failure = Some (BaseException e)\<rparr>"
  with assms show "events (generate env q) = map (\<lambda>c. Token (fragment c)) cs"
    and "fst (generate env q) = Some e"
    and "effects (snd (generate env q)) =
        [Rt (RunTree_init q (VERTEX_AI_MODEL env)), Rt Post,
         Generate_content_stream (VERTEX_AI_MODEL env) q] @
        (if cs = [] then [] else [Rt (Add_event ''new_token'')]) @
        map (\<lambda>c. Yield (Token (fragment c))) cs"
    by (cases rule: generate_cases [of env q]; simp add: rt_healthy_def events_def shape)+
qed

theorem upstream_failure_example:
  "rt_healthy (demo_env partial_then_raise working) \<and>
   genai_client (demo_env partial_then_raise working)
     (VERTEX_AI_MODEL (demo_env partial_then_raise working)) ''ping'' =
     \<lparr>chunks = [text_chunk ''partial''], failure = Some (Exception ''boom'')\<rparr> \<and>
   map render (events (generate (demo_env partial_then_raise working) ''ping'')) =
     [''data: partial\<newline>\<newline>'', ''data: [ERROR]\<newline>\<newline>''] \<and>
   fst (generate (demo_env partial_then_raise working) ''ping'') = None \<and>
   effects (snd (generate (demo_env partial_then_raise working) ''ping'')) =
     [Rt (RunTree_init ''ping'' ''gemini''), Rt Post,
      Generate_content_stream ''gemini'' ''ping'',
      Rt (Add_event ''new_token''), Yield (Token ''partial''),
      Print ''boom'', Rt (End_error ''boom''), Rt Patch, Yield Error] \<and>
   rt_healthy (demo_env partial_then_cancelled working) \<and>
   genai_client (demo_env partial_then_cancelled working)
     (VERTEX_AI_MODEL (demo_env partial_then_cancelled working)) ''ping'' =
     \<lparr>chunks = [text_chunk ''partial''], failure = Some (BaseException ''cancelled'')\<rparr> \<and>
   map render (events (generate (demo_env partial_then_cancelled working) ''ping'')) =
     [''data: partial\<newline>\<newline>''] \<and>
   fst (generate (demo_env partial_then_cancelled working) ''ping'') = Some ''cancelled'' \<and>
   effects (snd (generate (demo_env partial_then_cancelled working) ''ping'')) =
     [Rt (RunTree_init ''ping'' ''gemini''), Rt Post,
      Generate_content_stream ''gemini'' ''ping'',
      Rt (Add_event ''new_token''), Yield (Token ''partial'')]"
proof -
  have h: "rt_healthy (demo_env st working)" for st
    by (simp add: rt_healthy_def demo_env_def working_def)
  from
    upstream_failure_tokens_then_error
      [OF h, of partial_then_raise "''ping''" "[text_chunk ''partial'']" "''boom''"]
    upstream_failure_tokens_then_error
      [OF h, of partial_then_cancelled "''ping''" "[text_chunk ''partial'']" "''cancelled''"]
  show ?thesis
    by (simp add: rt_healthy_def working_def demo_env_def partial_then_raise_def
        partial_then_cancelled_def text_chunk_def fragment_def data_frame_def)
qed

subsection \<open>C3: an empty question\<close>

text \<open>
  As stated the claim fails for the empty question: \<^verbatim>\<open>question: str\<close> admits the empty
  string, the handler has no check of its own, and the upstream client is called with
  the empty prompt.
\<close>

theorem empty_question_reaches_upstream:
  "ask (demo_env ping working) (Some []) \<noteq> Validation_error \<and>
   prompts (response_effects (ask (demo_env ping working) (Some []))) = [[]]"
  by (simp add: ask_def response_effects_def run_eval)

text \<open>
  C3, amended. A request whose question attribute is absent is answered with a validation
  error before the handler runs: no trace call is made and the upstream client is not
  called. A question that is present, the empty one included, is not rejected: the
  response streams the run of the generator on it, and the upstream client is called
  with exactly that question as soon as the trace has been started.
\<close>

theorem absent_question_rejected_empty_forwarded:
  "ask env None = Validation_error \<and>
   response_effects (ask env None) = [] \<and>
   ask env (Some q) = Streaming_response (generate env q) \<and>
   prompts (response_effects (ask env (Some q))) =
     (if rt_raises env At_RunTree = None \<and> rt_raises env At_post = None then [q] else [])"
  by (cases rule: generate_cases [of env q])
     (simp_all add: ask_def response_effects_def shape)

subsection \<open>C4: trace-recorder failures\<close>

text \<open>
  As stated the claim fails: no recorder call is guarded on its own. With a working
  recorder the run on the chunks P, i, ng yields three token events and the done event;
  when \<^verbatim>\<open>rt.post()\<close> raises, nothing is yielded and the recorder's exception leaves
  the generator.
\<close>

theorem recorder_failure_changes_events:
  "events (generate (demo_env ping working) ''ping'') =
     [Token ''P'', Token ''i'', Token ''ng'', Done] \<and>
   fst (generate (demo_env ping working) ''ping'') = None \<and>
   events (generate (demo_env ping (raising_at At_post)) ''ping'') = [] \<and>
   fst (generate (demo_env ping (raising_at At_post)) ''ping'') = Some ''recorder unavailable''"
  by (simp add: run_eval)

text \<open>
  C4, amended. Trace-recorder calls are not best-effort, but a raising recorder call never
  alters an event already yielded: the events of a run are those of the same run with a
  working recorder cut short, that is a prefix of them, possibly followed by one error
  event. An exception of the trace start (the \<^verbatim>\<open>RunTree\<close> constructor or
  \<^verbatim>\<open>rt.post()\<close>) leaves the generator before the upstream is contacted and before any
  event. An exception of the first-token call is caught like an upstream failure: when the
  recorder calls of the \<^verbatim>\<open>except\<close> clause succeed, it is passed to
  \<^verbatim>\<open>rt.end(error=...)\<close>, the only event is the error event, and the generator returns
  normally.
\<close>

theorem recorder_failure_cuts_stream_short:
  "cut_short (events (generate env q)) (events (generate (env\<lparr>rt_raises := working\<rparr>) q)) \<and>
   (rt_raises env At_RunTree = Some e \<longrightarrow>
      fst (generate env q) = Some e \<and>
      effects (snd (generate env q)) = [Rt (RunTree_init q (VERTEX_AI_MODEL env))]) \<and>
   (rt_raises env At_RunTree = None \<and> rt_raises env At_post = Some e \<longrightarrow>
      fst (generate env q) = Some e \<and>
      effects (snd (generate env q)) = [Rt (RunTree_init q (VERTEX_AI_MODEL env)), Rt Post]) \<and>
   (rt_raises env At_RunTree = None \<and> rt_raises env At_post = None \<and>
    chunks (genai_client env (VERTEX_AI_MODEL env) q) = c # cs \<and>
    rt_raises env At_add_event = Some e \<and>
    rt_raises env At_end_error = None \<and> rt_raises env At_patch_error = None \<longrightarrow>
      fst (generate env q) = None \<and>
      events (generate env q) = [Error] \<and>
      rt_calls (effects (snd (generate env q))) =
        [RunTree_init q (VERTEX_AI_MODEL env), Post, Add_event ''new_token'', End_error e,
         Patch])"
  using events_cut_short [of env q] marker_raises_handled [of env q c cs e]
  by (simp add: start_raises started_simps)

theorem recorder_failure_examples:
  "rt_raises (demo_env ping (raising_at At_RunTree)) At_RunTree = Some ''recorder unavailable'' \<and>
   effects (snd (generate (demo_env ping (raising_at At_RunTree)) ''ping'')) =
     [Rt (RunTree_init ''ping'' ''gemini'')] \<and>
   rt_raises (demo_env ping (raising_at At_post)) At_post = Some ''recorder unavailable'' \<and>
   effects (snd (generate (demo_env ping (raising_at At_post)) ''ping'')) =
     [Rt (RunTree_init ''ping'' ''gemini''), Rt Post] \<and>
   rt_raises (demo_env ping (raising_at At_add_event)) At_add_event =
     Some ''recorder unavailable'' \<and>
   events (generate (demo_env ping (raising_at At_add_event)) ''ping'') = [Error] \<and>
   rt_calls (effects (snd (generate (demo_env ping (raising_at At_add_event)) ''ping''))) =
     [RunTree_init ''ping'' ''gemini'', Post, Add_event ''new_token'',
      End_error ''recorder unavailable'', Patch] \<and>
   cut_short [Error] [Token ''P'', Token ''i'', Token ''ng'', Done]"
  using
    recorder_failure_cuts_stream_short
      [of "demo_env ping (raising_at At_RunTree)" "''ping''" "''recorder unavailable''"
          "text_chunk ''P''" "[text_chunk ''i'', text_chunk ''ng'']"]
    recorder_failure_cuts_stream_short
      [of "demo_env ping (raising_at At_post)" "''ping''" "''recorder unavailable''"
          "text_chunk ''P''" "[text_chunk ''i'', text_chunk ''ng'']"]
    recorder_failure_cuts_stream_short
      [of "demo_env ping (raising_at At_add_event)" "''ping''" "''recorder unavailable''"
          "text_chunk ''P''" "[text_chunk ''i'', text_chunk ''ng'']"]
  by (simp add: run_eval cut_short_def)

subsection \<open>C5: a stream that completes\<close>

text \<open>
  As stated the claim fails: for a non-empty question and an upstream of three chunks
  that ends normally, a raising \<^verbatim>\<open>rt.add_event\<close> on the first chunk is caught by the
  \<^verbatim>\<open>except\<close> clause, and the events are the error event alone.
\<close>

theorem marker_failure_drops_tokens:
  "''ping'' \<noteq> [] \<and> failure ping = None \<and> length (chunks ping) = 3 \<and>
   events (generate (demo_env ping (raising_at At_add_event)) ''ping'') = [Error]"
  by (simp add: run_eval)

text \<open>
  C5, amended. For every question and every upstream sequence that ends normally, when no
  trace-recorder call raises, the handler of \<^verbatim>\<open>main.py\<close> returns normally and its events
  are one token event per chunk, in the order of the chunks and each with that chunk's
  text fragment, followed by one done event. The handler of \<^verbatim>\<open>example_wrapper.py\<close>, which
  has no recorder, does so for every upstream sequence that ends normally.
\<close>

theorem tokens_then_done_when_recorder_works:
  "(rt_healthy env \<and> failure (genai_client env (VERTEX_AI_MODEL env) q) = None \<longrightarrow>
      fst (generate env q) = None \<and>
      events (generate env q) =
        map (\<lambda>c. Token (fragment c)) (chunks (genai_client env (VERTEX_AI_MODEL env) q)) @
        [Done]) \<and>
   (failure (astream q) = None \<longrightarrow>
      fst (wrapper_generate astream q) = None \<and>
      wrapper_events (wrapper_generate astream q) = map Token (chunks (astream q)) @ [Done])"
  by (simp add: healthy_run wrapper_events_eq wrapper_fst)

theorem ping_example:
  "''ping'' \<noteq> [] \<and>
   rt_healthy (demo_env ping working) \<and>
   failure (genai_client (demo_env ping working) (VERTEX_AI_MODEL (demo_env ping working))
     ''ping'') = None \<and>
   map render (events (generate (demo_env ping working) ''ping'')) =
     [''data: P\<newline>\<newline>'', ''data: i\<newline>\<newline>'', ''data: ng\<newline>\<newline>'', ''data: [DONE]\<newline>\<newline>''] \<and>
   failure (wrapper_ping ''ping'') = None \<and>
   wrapper_events (wrapper_generate wrapper_ping ''ping'') =
     [Token ''P'', Token ''i'', Token ''ng'', Done]"
  using tokens_then_done_when_recorder_works [of "demo_env ping working" "''ping''" wrapper_ping]
  by (simp add: rt_healthy_def demo_env_def working_def ping_def text_chunk_def fragment_def
      wrapper_ping_def data_frame_def)

subsection \<open>C6: token totals of a successful call\<close>

text \<open>
  C6. Whenever a run finalises the trace as a success, that is calls
  \<^verbatim>\<open>rt.end(outputs=..., metadata=...)\<close>, the upstream sequence has ended normally, the
  output passed is the concatenation of all fragments, the input and output totals passed
  are the usage values of the last chunk that carried usage, and the total passed is
  their sum; with a working recorder every run on a sequence that ends normally makes
  this call. The last usage is an overwrite, not a sum: appending a chunk with usage
  replaces the pair by that chunk's values, appending one without usage leaves it, and it
  is (0, 0) when no chunk carried usage.
\<close>

theorem success_totals_are_last_usage:
  "(End_outputs out i o' t \<in> set (rt_calls (effects (snd (generate env q)))) \<longrightarrow>
      failure (genai_client env (VERTEX_AI_MODEL env) q) = None \<and>
      out = concat (map fragment (chunks (genai_client env (VERTEX_AI_MODEL env) q))) \<and>
      (i, o') = last_usage (chunks (genai_client env (VERTEX_AI_MODEL env) q)) \<and>
      t = i + o') \<and>
   (rt_healthy env \<and> failure (genai_client env (VERTEX_AI_MODEL env) q) = None \<longrightarrow>
      End_outputs
        (concat (map fragment (chunks (genai_client env (VERTEX_AI_MODEL env) q))))
        (fst (last_usage (chunks (genai_client env (VERTEX_AI_MODEL env) q))))
        (snd (last_usage (chunks (genai_client env (VERTEX_AI_MODEL env) q))))
        (fst (last_usage (chunks (genai_client env (VERTEX_AI_MODEL env) q))) +
         snd (last_usage (chunks (genai_client env (VERTEX_AI_MODEL env) q))))
      \<in> set (rt_calls (effects (snd (generate env q))))) \<and>
   last_usage (cs @ [c]) =
     (case usage_metadata c of
        Some u \<Rightarrow> (prompt_token_count u, candidates_token_count u)
      | None \<Rightarrow> last_usage cs) \<and>
   ((\<forall>c\<in>set cs. usage_metadata c = None) \<longrightarrow> last_usage cs = (0, 0))"
proof -
  have tot: "input_tokens (looped env q) =
        fst (last_usage (chunks (genai_client env (VERTEX_AI_MODEL env) q)))"
      "output_tokens (looped env q) =
        snd (last_usage (chunks (genai_client env (VERTEX_AI_MODEL env) q)))"
    using looped_totals [of env q] by (metis fst_conv, metis snd_conv)
  have a: "End_outputs out i o' t \<in> set (rt_calls (effects (snd (generate env q)))) \<longrightarrow>
      failure (genai_client env (VERTEX_AI_MODEL env) q) = None \<and>
      out = concat (map fragment (chunks (genai_client env (VERTEX_AI_MODEL env) q))) \<and>
      (i, o') = last_usage (chunks (genai_client env (VERTEX_AI_MODEL env) q)) \<and>
      t = i + o'"
    using finalised [of out i o' t env q] looped_totals [of env q]
    by (auto simp add: looped_content)
  have b: "rt_healthy env \<and> failure (genai_client env (VERTEX_AI_MODEL env) q) = None \<longrightarrow>
      End_outputs
        (concat (map fragment (chunks (genai_client env (VERTEX_AI_MODEL env) q))))
        (fst (last_usage (chunks (genai_client env (VERTEX_AI_MODEL env) q))))
        (snd (last_usage (chunks (genai_client env (VERTEX_AI_MODEL env) q))))
        (fst (last_usage (chunks (genai_client env (VERTEX_AI_MODEL env) q))) +
         snd (last_usage (chunks (genai_client env (VERTEX_AI_MODEL env) q))))
      \<in> set (rt_calls (effects (snd (generate env q))))"
    using healthy_finalises [of env q] by (simp add: tot looped_content)
  have c: "(\<forall>c\<in>set cs. usage_metadata c = None) \<longrightarrow> last_usage cs = (0, 0)"
    by (simp add: usages_none last_usage_def)
  from a b c show ?thesis by (simp only: last_usage_snoc simp_thms)
qed

theorem success_totals_example:
  "End_outputs ''abc'' 3 2 5
     \<in> set (rt_calls (effects (snd (generate (demo_env two_usages working) ''ping'')))) \<and>
   rt_healthy (demo_env two_usages working) \<and>
   failure two_usages = None \<and>
   last_usage (chunks two_usages) = (3, 2) \<and>
   usage_metadata (text_chunk ''b'') = None \<and>
   last_usage [text_chunk ''b''] = (0, 0) \<and>
   last_usage ([text_chunk ''b''] @ [usage_chunk ''c'' 3 2]) = (3, 2)"
proof -
  have run: "rt_calls (effects (snd (generate (demo_env two_usages working) ''ping''))) =
      [RunTree_init ''ping'' ''gemini'', Post, Add_event ''new_token'',
       End_outputs ''abc'' 3 2 5, Patch]"
    by (simp add: run_eval two_usages_def)
  have called: "End_outputs ''abc'' 3 2 5
      \<in> set (rt_calls (effects (snd (generate (demo_env two_usages working) ''ping''))))"
    by (simp add: run)
  have healthy: "rt_healthy (demo_env two_usages working)"
    by (simp add: rt_healthy_def demo_env_def working_def)
  have stream: "genai_client (demo_env two_usages working)
      (VERTEX_AI_MODEL (demo_env two_usages working)) ''ping'' = two_usages"
    by (simp add: demo_env_def)
  have no_usage: "\<forall>c\<in>set [text_chunk ''b'']. usage_metadata c = None"
    by (simp add: text_chunk_def)
  note claim = success_totals_are_last_usage
    [of "''abc''" 3 2 5 "demo_env two_usages working" "''ping''" "[text_chunk ''b'']"
        "usage_chunk ''c'' 3 2", unfolded stream]
  from claim called have ended: "failure two_usages = None"
    and totals: "(3, 2) = last_usage (chunks two_usages)"
    by blast+
  from claim no_usage have zero: "last_usage [text_chunk ''b''] = (0, 0)"
    by blast
  from claim have "last_usage ([text_chunk ''b''] @ [usage_chunk ''c'' 3 2]) =
      (case usage_metadata (usage_chunk ''c'' 3 2) of
         Some u \<Rightarrow> (prompt_token_count u, candidates_token_count u)
       | None \<Rightarrow> last_usage [text_chunk ''b''])"
    by blast
  then have over: "last_usage ([text_chunk ''b''] @ [usage_chunk ''c'' 3 2]) = (3, 2)"
    by (simp add: usage_chunk_def)
  from called healthy ended totals zero over show ?thesis
    by (simp add: text_chunk_def)
qed

subsection \<open>C7: the first-token marker\<close>

text \<open>
  C7. In every run the handler calls \<^verbatim>\<open>rt.add_event({"name": "new_token"})\<close> at most
  once: exactly once when the upstream is reached and yields at least one chunk, never
  otherwise, however many chunks follow. When the trace has started and the upstream
  yields a first chunk \<open>c\<close>, whatever its content, the call is the first thing the run
  does after opening the stream, before any event is yielded.
\<close>

theorem first_token_marker_once:
  "markers (generate env q) \<le> 1 \<and>
   markers (generate env q) =
     (if rt_raises env At_RunTree = None \<and> rt_raises env At_post = None \<and>
         chunks (genai_client env (VERTEX_AI_MODEL env) q) \<noteq> []
      then 1 else 0) \<and>
   (rt_raises env At_RunTree = None \<and> rt_raises env At_post = None \<and>
    chunks (genai_client env (VERTEX_AI_MODEL env) q) = c # cs \<longrightarrow>
      take 4 (effects (snd (generate env q))) =
        [Rt (RunTree_init q (VERTEX_AI_MODEL env)), Rt Post,
         Generate_content_stream (VERTEX_AI_MODEL env) q, Rt (Add_event ''new_token'')])"
  using marker_first [of env q c cs] by (simp add: markers_count)

theorem first_token_marker_example:
  "rt_raises (demo_env empty_first working) At_RunTree = None \<and>
   rt_raises (demo_env empty_first working) At_post = None \<and>
   chunks (genai_client (demo_env empty_first working)
     (VERTEX_AI_MODEL (demo_env empty_first working)) ''ping'') =
     \<lparr>chunk_text = None, usage_metadata = None\<rparr> # [text_chunk ''x''] \<and>
   markers (generate (demo_env empty_first working) ''ping'') = 1 \<and>
   effects (snd (generate (demo_env empty_first working) ''ping'')) =
     [Rt (RunTree_init ''ping'' ''gemini''), Rt Post,
      Generate_content_stream ''gemini'' ''ping'', Rt (Add_event ''new_token''),
      Yield (Token []), Yield (Token ''x''), Yield Done,
      Rt (End_outputs ''x'' 0 0 0), Rt Patch]"
  using first_token_marker_once
    [of "demo_env empty_first working" "''ping''" "\<lparr>chunk_text = None, usage_metadata = None\<rparr>"
        "[text_chunk ''x'']"]
  by (simp add: run_eval empty_first_def)

subsection \<open>C8: fragments, the buffer and the frames\<close>

text \<open>
  As stated for every chunk the claim fails: when \<^verbatim>\<open>rt.add_event\<close> raises on the first
  chunk, the statements that append and yield are not reached for it, nor for any later
  chunk. Of three chunks with the texts a, b and c nothing is appended to the buffer and
  no token event is yielded.
\<close>

theorem marker_failure_drops_chunk:
  "length (chunks two_usages) = 3 \<and>
   tokens (events (generate (demo_env two_usages (raising_at At_add_event)) ''ping'')) = [] \<and>
   full_content (snd (generate (demo_env two_usages (raising_at At_add_event)) ''ping'')) = [] \<and>
   events (generate (demo_env two_usages (raising_at At_add_event)) ''ping'') = [Error]"
  by (simp add: run_eval two_usages_def tokens_def)

text \<open>
  C8, amended. A pass of the loop body on a chunk, when it is not the first chunk or the
  first-token call does not raise, does not raise, appends the chunk's fragment, empty or
  not, to \<^verbatim>\<open>full_content\<close> and yields exactly one event, the token event carrying that
  fragment. In every run in which the trace has started and the first-token call does not
  raise, however the upstream sequence ends and whatever the later recorder calls do,
  the token events are the fragments of all chunks of the upstream sequence, one event
  per chunk and in order, and the buffer is the concatenation of all fragments. The token
  event renders as \<^verbatim>\<open>data: \<close>, the fragment and two line feeds, so the empty fragment as
  \<^verbatim>\<open>data: \<close> and two line feeds; the done event renders as \<^verbatim>\<open>data: [DONE]\<close> and the error
  event as \<^verbatim>\<open>data: [ERROR]\<close>, each followed by two line feeds. In every run whatsoever the
  token events carry the fragments of the first chunks of the upstream sequence, in
  order, and the buffer is the concatenation of the fragments yielded.
\<close>

theorem fragment_appended_and_framed:
  "(first_token s \<noteq> None \<or> rt_raises env At_add_event = None \<longrightarrow>
      fst (loop_body env c s) = None \<and>
      full_content (snd (loop_body env c s)) = full_content s @ fragment c \<and>
      yields (effects (snd (loop_body env c s))) = yields (effects s) @ [Token (fragment c)]) \<and>
   (rt_raises env At_RunTree = None \<and> rt_raises env At_post = None \<and>
    rt_raises env At_add_event = None \<longrightarrow>
      tokens (events (generate env q)) =
        map fragment (chunks (genai_client env (VERTEX_AI_MODEL env) q)) \<and>
      full_content (snd (generate env q)) =
        concat (map fragment (chunks (genai_client env (VERTEX_AI_MODEL env) q)))) \<and>
   render (Token (fragment c)) = ''data: '' @ fragment c @ [CHR 0x0A, CHR 0x0A] \<and>
   render (Token []) = ''data: '' @ [CHR 0x0A, CHR 0x0A] \<and>
   render Done = ''data: [DONE]'' @ [CHR 0x0A, CHR 0x0A] \<and>
   render Error = ''data: [ERROR]'' @ [CHR 0x0A, CHR 0x0A] \<and>
   tokens (events (generate env q)) =
     map fragment (take (length (tokens (events (generate env q))))
       (chunks (genai_client env (VERTEX_AI_MODEL env) q))) \<and>
   full_content (snd (generate env q)) = concat (tokens (events (generate env q)))"
proof -
  have body: "fst (loop_body env c s) = None \<and>
      full_content (snd (loop_body env c s)) = full_content s @ fragment c \<and>
      yields (effects (snd (loop_body env c s))) = yields (effects s) @ [Token (fragment c)]"
    if "first_token s \<noteq> None \<or> rt_raises env At_add_event = None"
  proof (cases "first_token s")
    case None
    with that have "rt_raises env At_add_event = None" by simp
    with None show ?thesis
      by (simp add: loop_body_first absorb_simps mark_simps yields_append)
  next
    case (Some x)
    then have "first_token s \<noteq> None" by simp
    then show ?thesis
      by (simp add: loop_body_started absorb_simps yields_append)
  qed
  have run: "tokens (events (generate env q)) =
        map fragment (chunks (genai_client env (VERTEX_AI_MODEL env) q)) \<and>
      full_content (snd (generate env q)) =
        concat (map fragment (chunks (genai_client env (VERTEX_AI_MODEL env) q)))"
    if "rt_raises env At_RunTree = None" "rt_raises env At_post = None"
      "rt_raises env At_add_event = None"
    using that
    by (cases rule: generate_cases [of env q])
       (simp_all add: events_def shape tokens_append tokens_tokens tokens_simps)
  from body run run_tokens [of env q] run_buffer [of env q] show ?thesis
    by (simp add: data_frame_def)
qed

theorem fragment_appended_and_framed_example:
  "rt_raises (demo_env empty_first working) At_RunTree = None \<and>
   rt_raises (demo_env empty_first working) At_post = None \<and>
   rt_raises (demo_env empty_first working) At_add_event = None \<and>
   chunks (genai_client (demo_env empty_first working)
     (VERTEX_AI_MODEL (demo_env empty_first working)) ''ping'') =
     [\<lparr>chunk_text = None, usage_metadata = None\<rparr>, text_chunk ''x''] \<and>
   tokens (events (generate (demo_env empty_first working) ''ping'')) = ['''', ''x''] \<and>
   map render (events (generate (demo_env empty_first working) ''ping'')) =
     [''data: \<newline>\<newline>'', ''data: x\<newline>\<newline>'', ''data: [DONE]\<newline>\<newline>''] \<and>
   full_content (snd (generate (demo_env empty_first working) ''ping'')) = ''x'' \<and>
   first_token (mark (text_chunk ''a'') initial) \<noteq> None \<and>
   full_content (snd (loop_body (demo_env empty_first working) (text_chunk ''b'')
     (mark (text_chunk ''a'') initial))) = ''b'' \<and>
   yields (effects (snd (loop_body (demo_env empty_first working) (text_chunk ''b'')
     (mark (text_chunk ''a'') initial)))) = [Token ''b'']"
  using fragment_appended_and_framed
    [of "mark (text_chunk ''a'') initial" "demo_env empty_first working" "text_chunk ''b''"
        "''ping''"]
  by (simp add: run_eval empty_first_def mark_def tokens_def fragment_def data_frame_def)

subsection \<open>C9: the frame encoding is not injective\<close>

text \<open>
  C9. The concatenated frame encoding of token events is not injective: the one chunk
  \<open>a\<close>, two newlines, \<open>data: b\<close> and the two chunks \<open>a\<close>, \<open>b\<close> are different chunk
  sequences with the same bytes on the wire, as token events and as the response bodies
  of both handlers; chunk boundaries cannot always be recovered from the byte stream.
\<close>

theorem frame_encoding_not_injective:
  "[a @ ''\<newline>\<newline>data: '' @ b] \<noteq> [a, b] \<and>
   body_bytes [Token (a @ ''\<newline>\<newline>data: '' @ b)] = body_bytes [Token a, Token b] \<and>
   body_bytes (events (generate (demo_env
       \<lparr>chunks = [text_chunk (a @ ''\<newline>\<newline>data: '' @ b)], failure = None\<rparr> working) q)) =
   body_bytes (events (generate (demo_env
       \<lparr>chunks = [text_chunk a, text_chunk b], failure = None\<rparr> working) q)) \<and>
   body_bytes (wrapper_events (wrapper_generate
       (\<lambda>_. \<lparr>chunks = [a @ ''\<newline>\<newline>data: '' @ b], failure = None\<rparr>) q)) =
   body_bytes (wrapper_events (wrapper_generate (\<lambda>_. \<lparr>chunks = [a, b], failure = None\<rparr>) q))"
proof -
  have h: "rt_healthy (demo_env st working)" for st
    by (simp add: rt_healthy_def demo_env_def working_def)
  show ?thesis
    unfolding healthy_run(2) [OF h] wrapper_events_eq
    by (simp add: body_bytes_def data_frame_def demo_env_def text_chunk_def fragment_def)
qed

subsection \<open>C10: the events depend on the question and the upstream sequence only\<close>

text \<open>
  C10. Two runs of the handler of \<^verbatim>\<open>main.py\<close> on the same question, in any two
  environments whose recorder calls do not raise and whose upstream client answers the
  question with the same sequence (the same chunks and the same end), produce the same
  frames byte for byte, both return normally, and end with the same output text and the
  same token totals: the model name, the client and the recorder have no other
  influence. Two runs of the handler of \<^verbatim>\<open>example_wrapper.py\<close> on the same upstream
  sequence produce the same frames and the same outcome.
\<close>

theorem events_depend_on_question_and_stream_only:
  "(rt_healthy e1 \<and> rt_healthy e2 \<and>
    genai_client e1 (VERTEX_AI_MODEL e1) q = genai_client e2 (VERTEX_AI_MODEL e2) q \<longrightarrow>
      map render (events (generate e1 q)) = map render (events (generate e2 q)) \<and>
      fst (generate e1 q) = fst (generate e2 q) \<and>
      full_content (snd (generate e1 q)) = full_content (snd (generate e2 q)) \<and>
      input_tokens (snd (generate e1 q)) = input_tokens (snd (generate e2 q)) \<and>
      output_tokens (snd (generate e1 q)) = output_tokens (snd (generate e2 q))) \<and>
   (astream1 q = astream2 q \<longrightarrow>
      map render (wrapper_events (wrapper_generate astream1 q)) =
      map render (wrapper_events (wrapper_generate astream2 q)) \<and>
      fst (wrapper_generate astream1 q) = fst (wrapper_generate astream2 q))"
proof -
  have "input_tokens (snd (generate e1 q)) = input_tokens (snd (generate e2 q)) \<and>
        output_tokens (snd (generate e1 q)) = output_tokens (snd (generate e2 q))"
    if "rt_healthy e1" "rt_healthy e2"
      "genai_client e1 (VERTEX_AI_MODEL e1) q = genai_client e2 (VERTEX_AI_MODEL e2) q"
    using healthy_totals [OF that(1), of q] healthy_totals [OF that(2), of q] that(3)
    by (metis prod.inject)
  then show ?thesis
    by (simp add: healthy_run wrapper_events_eq wrapper_fst)
qed

theorem same_stream_example:
  "rt_healthy (demo_env ping working) \<and> rt_healthy other_env \<and>
   VERTEX_AI_MODEL (demo_env ping working) \<noteq> VERTEX_AI_MODEL other_env \<and>
   genai_client (demo_env ping working) (VERTEX_AI_MODEL (demo_env ping working)) ''ping'' =
     genai_client other_env (VERTEX_AI_MODEL other_env) ''ping'' \<and>
   map render (events (generate (demo_env ping working) ''ping'')) =
     map render (events (generate other_env ''ping'')) \<and>
   wrapper_ping ''ping'' = wrapper_ping ''pong'' \<and>
   map render (wrapper_events (wrapper_generate wrapper_ping ''ping'')) =
     map render (wrapper_events (wrapper_generate (\<lambda>q. wrapper_ping ''pong'') ''ping''))"
  using events_depend_on_question_and_stream_only
    [of "demo_env ping working" other_env "''ping''" wrapper_ping "\<lambda>q. wrapper_ping ''pong''"]
  by (simp add: rt_healthy_def demo_env_def working_def other_env_def wrapper_ping_def)

end
